theory Spec2Isabelle
  imports Complex_Main "HOL-Library.Char_ord" "HOL-Library.List_Lexorder"
    "HOL-Library.Product_Lexorder" "HOL-Library.Sublist" "HOL-Library.Multiset"
begin

section \<open>Numbers\<close>

text \<open>
  The numeric cells of the dashboard's frames are Python/NumPy numbers. They are modelled as
  exact rationals (\<^typ>\<open>rat\<close>): every sum, mean and comparison below is the exact one. NaN
  cells and binary floating-point rounding are outside this model.
\<close>

text \<open>
  \<^verbatim>\<open>DataFrame.round(2)\<close> rounds with NumPy's rule: scale by 100, round to the nearest
  integer with ties going to the even one, scale back.
\<close>

definition rint :: "rat \<Rightarrow> int" where
  "rint x =
     (let f = \<lfloor>x\<rfloor>; d = x - of_int f
      in if d < 1 / 2 then f
         else if 1 / 2 < d then f + 1
         else if even f then f else f + 1)"

definition round2 :: "rat \<Rightarrow> rat" where
  "round2 x = of_int (rint (x * 100)) / 100"

definition mean :: "rat list \<Rightarrow> rat" where
  "mean xs = sum_list xs / of_nat (length xs)"

text \<open>Decimal digits of a natural number, as \<^verbatim>\<open>str\<close> prints them.\<close>

fun digits :: "nat \<Rightarrow> string" where
  "digits n =
     (if n < 10 then [char_of (48 + n)]
      else digits (n div 10) @ [char_of (48 + n mod 10)])"

text \<open>
  The format specifications \<^verbatim>\<open>:.1f\<close> and \<^verbatim>\<open>:.2f\<close>: fixed-point notation with \<open>p\<close>
  digits after the point, rounded to the nearest with ties to even, the sign of a negative
  number kept even when it rounds to zero.
\<close>

definition format_f :: "nat \<Rightarrow> rat \<Rightarrow> string" where
  "format_f p x =
     (let n = nat (rint (\<bar>x\<bar> * 10 ^ p));
          ip = digits (n div 10 ^ p);
          fp = digits (n mod 10 ^ p)
      in (if x < 0 then ''-'' else '''') @ ip @
         (if p = 0 then '''' else ''.'' @ replicate (p - length fp) (CHR ''0'') @ fp))"

section \<open>The frame after validation: rows\<close>

text \<open>
  A calendar date is (year, month, day), compared lexicographically as Python's
  \<^verbatim>\<open>datetime.date\<close> is. A timestamp is a date and a time of day in nanoseconds;
  \<^verbatim>\<open>.dt.date\<close> drops the time.
\<close>

type_synonym date = "nat \<times> nat \<times> nat"
type_synonym timestamp = "date \<times> nat"

definition dt_date :: "timestamp \<Rightarrow> date" where
  "dt_date t = fst t"

record row =
  Fecha :: timestamp
  Fuente :: string
  Revenue :: rat
  Impresiones :: rat
  Page_RPM :: rat
  Fill_Rate :: rat
  eCPM :: rat
  CTR :: rat

type_synonym frame = "row list"

section \<open>Grouping by source\<close>

text \<open>
  \<^verbatim>\<open>df.groupby('Fuente')\<close>: one group per distinct source, the groups in ascending order of
  the key, each group holding its rows in the order of the frame.
\<close>

definition groupby_Fuente :: "frame \<Rightarrow> (string \<times> frame) list" where
  "groupby_Fuente df =
     map (\<lambda>k. (k, filter (\<lambda>r. Fuente r = k) df)) (sort (remdups (map Fuente df)))"

section \<open>show_alerts\<close>

text \<open>One row of \<^verbatim>\<open>source_metrics\<close>: the three aggregated columns of a source.\<close>

record metrics =
  m_Fill_Rate :: rat
  m_Revenue :: rat
  m_eCPM :: rat

type_synonym alert = "string \<times> string"

definition source_metrics :: "frame \<Rightarrow> (string \<times> metrics) list" where
  "source_metrics df =
     map (\<lambda>(k, g). (k, \<lparr>m_Fill_Rate = round2 (mean (map Fill_Rate g)),
                         m_Revenue = round2 (sum_list (map Revenue g)),
                         m_eCPM = round2 (mean (map eCPM g))\<rparr>))
       (groupby_Fuente df)"

text \<open>The two message templates; the leading signs are given by their UTF-8 bytes.\<close>

definition danger_msg :: "string \<Rightarrow> rat \<Rightarrow> string" where
  "danger_msg source v =
     [CHR 0xE2, CHR 0x9A, CHR 0xA0, CHR 0xEF, CHR 0xB8, CHR 0x8F] @ '' '' @ source @
     '': Fill Rate bajo ('' @ format_f 1 v @ ''%)''"

definition warning_msg :: "string \<Rightarrow> rat \<Rightarrow> string" where
  "warning_msg source v =
     [CHR 0xE2, CHR 0x9A, CHR 0xA1] @ '' '' @ source @
     '': eCPM bajo ($'' @ format_f 2 v @ '')''"

text \<open>
  The loop over \<^verbatim>\<open>source_metrics.iterrows()\<close>, with the list \<^verbatim>\<open>alerts\<close> it appends to as
  the state.
\<close>

fun alerts_loop :: "(string \<times> metrics) list \<Rightarrow> alert list \<Rightarrow> alert list" where
  "alerts_loop [] alerts = alerts"
| "alerts_loop ((source, ms) # rest) alerts =
     (let alerts1 =
            (if m_Fill_Rate ms < 80
             then alerts @ [(''danger'', danger_msg source (m_Fill_Rate ms))]
             else alerts);
          alerts2 =
            (if m_eCPM ms < 1
             then alerts1 @ [(''warning'', warning_msg source (m_eCPM ms))]
             else alerts1)
      in alerts_loop rest alerts2)"

definition evaluate_alerts :: "(string \<times> metrics) list \<Rightarrow> alert list" where
  "evaluate_alerts sm = alerts_loop sm []"

text \<open>What \<^verbatim>\<open>show_alerts\<close> writes to the page: one markdown block per call of \<^verbatim>\<open>st.markdown\<close>.\<close>

definition show_alerts :: "frame \<Rightarrow> string list" where
  \<open>show_alerts df =
     (let alerts = evaluate_alerts (source_metrics df)
      in if alerts = []
         then [''<div class="alert-success">'' @ [CHR 0xE2, CHR 0x9C, CHR 0x85] @
               '' Todas las fuentes funcionan correctamente</div>'']
         else map (\<lambda>(alert_type, message).
                ''<div class="alert-'' @ alert_type @ ''">'' @ message @ ''</div>'') alerts)\<close>

section \<open>The uploaded frame: columns\<close>

text \<open>
  \<^verbatim>\<open>validate_data\<close> receives what \<^verbatim>\<open>pd.read_csv\<close> returned and looks at column names and
  column types only, so the uploaded frame is modelled column by column: a column is its
  dtype together with its cells.
\<close>

datatype column =
    IntCol "int list"
  | FloatCol "rat list"
  | BoolCol "bool list"
  | ObjectCol "string list"
  | DatetimeCol "timestamp list"

type_synonym table = "(string \<times> column) list"

datatype exn = KeyError string

definition columns :: "table \<Rightarrow> string list" where
  "columns df = map fst df"

text \<open>\<^verbatim>\<open>df[col]\<close>: the column of that name, a \<^verbatim>\<open>KeyError\<close> when there is none.\<close>

definition getitem :: "table \<Rightarrow> string \<Rightarrow> exn + column" where
  "getitem df col = (case map_of df col of None \<Rightarrow> Inl (KeyError col) | Some c \<Rightarrow> Inr c)"

text \<open>
  \<^verbatim>\<open>df[col] = values\<close>: an existing column is replaced where it stands, a new one is added
  at the end.
\<close>

fun setitem :: "table \<Rightarrow> string \<Rightarrow> column \<Rightarrow> table" where
  "setitem [] col v = [(col, v)]"
| "setitem ((k, c) # df) col v =
     (if k = col then (col, v) # df else (k, c) # setitem df col v)"

text \<open>
  \<^verbatim>\<open>pd.api.types.is_numeric_dtype\<close>: integer, floating and boolean dtypes are numeric,
  object and datetime dtypes are not.
\<close>

fun is_numeric_dtype :: "column \<Rightarrow> bool" where
  "is_numeric_dtype (IntCol _) = True"
| "is_numeric_dtype (FloatCol _) = True"
| "is_numeric_dtype (BoolCol _) = True"
| "is_numeric_dtype (ObjectCol _) = False"
| "is_numeric_dtype (DatetimeCol _) = False"

text \<open>\<^verbatim>\<open>sep.join(items)\<close>.\<close>

fun join :: "string \<Rightarrow> string list \<Rightarrow> string" where
  "join sep [] = []"
| "join sep [x] = x"
| "join sep (x # y # ys) = x @ sep @ join sep (y # ys)"

section \<open>validate_data\<close>

definition required_columns :: "string list" where
  "required_columns =
     [''Fecha'', ''Fuente'', ''Revenue'', ''Impresiones'', ''Page_RPM'', ''Fill_Rate'',
      ''eCPM'', ''CTR'']"

definition numeric_columns :: "string list" where
  "numeric_columns =
     [''Revenue'', ''Impresiones'', ''Page_RPM'', ''Fill_Rate'', ''eCPM'', ''CTR'']"

text \<open>
  The loop over \<^verbatim>\<open>numeric_columns\<close>: it returns at the first column that is not numeric, and
  the success pair when it runs to the end. The accents of the messages are UTF-8 bytes.
\<close>

fun numeric_loop :: "table \<Rightarrow> string list \<Rightarrow> exn + bool \<times> string" where
  "numeric_loop df [] = Inr (True, ''Datos v'' @ [CHR 0xC3, CHR 0xA1] @ ''lidos'')"
| "numeric_loop df (col # cols) =
     (case getitem df col of
        Inl e \<Rightarrow> Inl e
      | Inr c \<Rightarrow>
          if \<not> is_numeric_dtype c
          then Inr (False, ''La columna '' @ col @ '' debe ser num'' @ [CHR 0xC3, CHR 0xA9] @
                 ''rica'')
          else numeric_loop df cols)"

text \<open>
  \<^verbatim>\<open>pd.to_datetime\<close> belongs to pandas, not to this program: it is the parameter
  \<open>to_datetime\<close>, which gives the converted column, or \<open>None\<close> when pandas raises. The
  function returns its pair (or the exception that leaves it) together with the frame as the
  call leaves it, since the assignment to \<^verbatim>\<open>df['Fecha']\<close> acts on the caller's frame. The
  bare \<^verbatim>\<open>except\<close> catches whatever the \<^verbatim>\<open>try\<close> block raises.
\<close>

definition validate_data ::
    "(column \<Rightarrow> column option) \<Rightarrow> table \<Rightarrow> (exn + bool \<times> string) \<times> table" where
  "validate_data to_datetime df =
     (let missing_columns = [col \<leftarrow> required_columns. col \<notin> set (columns df)]
      in if missing_columns \<noteq> []
         then (Inr (False, ''Faltan las siguientes columnas: '' @ join '', '' missing_columns),
               df)
         else
           (case getitem df ''Fecha'' of
              Inl e \<Rightarrow> (Inr (False, ''Error en formato de fechas. Use YYYY-MM-DD''), df)
            | Inr c \<Rightarrow>
                (case to_datetime c of
                   None \<Rightarrow> (Inr (False, ''Error en formato de fechas. Use YYYY-MM-DD''), df)
                 | Some parsed \<Rightarrow>
                     (let df' = setitem df ''Fecha'' parsed
                      in (numeric_loop df' numeric_columns, df')))))"

subsection \<open>A date parser to run validate_data with\<close>

text \<open>
  A conversion to put in the place of \<^verbatim>\<open>pd.to_datetime\<close> when \<open>validate_data\<close> is run on a
  concrete frame. It reads a column of strings of the form \<^verbatim>\<open>YYYY-MM-DD\<close> (the form the
  program's own error message asks for), leaves a datetime column as it is, and refuses
  everything else. The general theorems hold for every conversion and do not use it.
\<close>

definition is_digit :: "char \<Rightarrow> bool" where
  "is_digit c = (CHR ''0'' \<le> c \<and> c \<le> CHR ''9'')"

definition number_of_digits :: "string \<Rightarrow> nat" where
  "number_of_digits s = foldl (\<lambda>n c. 10 * n + (of_char c - 48)) 0 s"

definition is_leap :: "nat \<Rightarrow> bool" where
  "is_leap y = (if y mod 100 = 0 then y mod 400 = 0 else y mod 4 = 0)"

definition days_in_month :: "nat \<Rightarrow> nat \<Rightarrow> nat" where
  "days_in_month y m =
     (if m = 2 then (if is_leap y then 29 else 28)
      else if m = 4 \<or> m = 6 \<or> m = 9 \<or> m = 11 then 30 else 31)"

definition parse_iso_date :: "string \<Rightarrow> timestamp option" where
  "parse_iso_date s =
     (if length s = 10 \<and> s ! 4 = CHR ''-'' \<and> s ! 7 = CHR ''-'' \<and>
         list_all is_digit (take 4 s) \<and> list_all is_digit (take 2 (drop 5 s)) \<and>
         list_all is_digit (drop 8 s)
      then
        (let y = number_of_digits (take 4 s);
             m = number_of_digits (take 2 (drop 5 s));
             d = number_of_digits (drop 8 s)
         in if 1 \<le> m \<and> m \<le> 12 \<and> 1 \<le> d \<and> d \<le> days_in_month y m
            then Some ((y, m, d), 0) else None)
      else None)"

fun parse_all :: "string list \<Rightarrow> timestamp list option" where
  "parse_all [] = Some []"
| "parse_all (s # ss) =
     (case parse_iso_date s of
        None \<Rightarrow> None
      | Some t \<Rightarrow> (case parse_all ss of None \<Rightarrow> None | Some ts \<Rightarrow> Some (t # ts)))"

fun iso_to_datetime :: "column \<Rightarrow> column option" where
  "iso_to_datetime (ObjectCol ss) =
     (case parse_all ss of None \<Rightarrow> None | Some ts \<Rightarrow> Some (DatetimeCol ts))"
| "iso_to_datetime (DatetimeCol ts) = Some (DatetimeCol ts)"
| "iso_to_datetime (IntCol _) = None"
| "iso_to_datetime (FloatCol _) = None"
| "iso_to_datetime (BoolCol _) = None"

section \<open>The filters\<close>

text \<open>
  A boolean Series is a list of booleans, one per row; \<^verbatim>\<open>&\<close> combines two of them row by
  row, and \<^verbatim>\<open>df[mask]\<close> keeps the rows whose entry is true.
\<close>

definition series_and :: "bool list \<Rightarrow> bool list \<Rightarrow> bool list" where
  "series_and xs ys = map (\<lambda>(x, y). x \<and> y) (zip xs ys)"

definition select_rows :: "frame \<Rightarrow> bool list \<Rightarrow> frame" where
  "select_rows df keep = map fst (filter snd (zip df keep))"

definition isin :: "string list \<Rightarrow> string list \<Rightarrow> bool list" where
  "isin series values = map (\<lambda>x. x \<in> set values) series"

text \<open>
  \<^verbatim>\<open>filtered_df\<close>: with two bounds in \<^verbatim>\<open>date_range\<close> the three masks are combined, otherwise
  the sources alone decide.
\<close>

definition filtered_df :: "frame \<Rightarrow> date list \<Rightarrow> string list \<Rightarrow> frame" where
  "filtered_df df date_range selected_sources =
     (if length date_range = 2
      then select_rows df
             (series_and
                (series_and
                   (map (\<lambda>r. date_range ! 0 \<le> dt_date (Fecha r)) df)
                   (map (\<lambda>r. dt_date (Fecha r) \<le> date_range ! 1) df))
                (isin (map Fuente df) selected_sources))
      else select_rows df (isin (map Fuente df) selected_sources))"

text \<open>
  The values the two widgets start with: the dates of the earliest and of the latest
  timestamp of the frame, and the sorted distinct sources. An empty frame has no earliest
  timestamp.
\<close>

definition default_date_range :: "frame \<Rightarrow> date list option" where
  "default_date_range df =
     (case map Fecha df of
        [] \<Rightarrow> None
      | t # ts \<Rightarrow> Some [dt_date (fold min ts t), dt_date (fold max ts t)])"

definition all_sources :: "frame \<Rightarrow> string list" where
  "all_sources df = sort (remdups (map Fuente df))"

section \<open>The main metrics\<close>





section \<open>The detailed table by source\<close>




section \<open>Frames to run the dashboard on\<close>

text \<open>
  The first frame has two sources on two days, with revenues 100 and 200 against 50 and 50.
  In the second the revenues have three decimals. In the third the impressions are
  negative.
\<close>

definition scenario :: frame where
  "scenario =
     [\<lparr>Fecha = ((2024, 1, 1), 0), Fuente = ''SourceA'', Revenue = 100, Impresiones = 1000,
       Page_RPM = 100, Fill_Rate = 70, eCPM = 1 / 2, CTR = 1\<rparr>,
      \<lparr>Fecha = ((2024, 1, 1), 0), Fuente = ''SourceB'', Revenue = 50, Impresiones = 2000,
       Page_RPM = 25, Fill_Rate = 90, eCPM = 1 / 4, CTR = 1\<rparr>,
      \<lparr>Fecha = ((2024, 1, 2), 0), Fuente = ''SourceA'', Revenue = 200, Impresiones = 1000,
       Page_RPM = 200, Fill_Rate = 70, eCPM = 1 / 2, CTR = 1\<rparr>,
      \<lparr>Fecha = ((2024, 1, 2), 0), Fuente = ''SourceB'', Revenue = 50, Impresiones = 2000,
       Page_RPM = 25, Fill_Rate = 90, eCPM = 1 / 4, CTR = 1\<rparr>]"



section \<open>Uploads to run the validator on\<close>

text \<open>
  Two frames as \<^verbatim>\<open>pd.read_csv\<close> would return them. The first has the eight columns with
  numeric types and impressions of zero and below; in the second two numeric columns came
  out as text.
\<close>

definition example_upload :: table where
  "example_upload =
     [(''Fecha'', ObjectCol [''2024-01-01'', ''2024-02-29'']),
      (''Fuente'', ObjectCol [''Google_AdEx'', ''TAM_Amazon'']),
      (''Revenue'', FloatCol [1, 2]),
      (''Impresiones'', IntCol [0, - 5]),
      (''Page_RPM'', FloatCol [1, 2]),
      (''Fill_Rate'', FloatCol [1, 2]),
      (''eCPM'', FloatCol [1, 2]),
      (''CTR'', IntCol [1, 2])]"

definition untyped_upload :: table where
  "untyped_upload =
     [(''Fecha'', ObjectCol [''2024-01-01'', ''2024-02-29'']),
      (''Fuente'', ObjectCol [''Google_AdEx'', ''TAM_Amazon'']),
      (''Revenue'', FloatCol [1, 2]),
      (''Impresiones'', ObjectCol [''many'', ''1000'']),
      (''Page_RPM'', FloatCol [1, 2]),
      (''Fill_Rate'', FloatCol [1, 2]),
      (''eCPM'', ObjectCol [''n/a'', ''2'']),
      (''CTR'', IntCol [1, 2])]"

section \<open>Rounding\<close>




section \<open>Properties of the alert evaluator\<close>

lemma alerts_loop_acc: "alerts_loop sm acc = acc @ alerts_loop sm []"
proof (induction sm arbitrary: acc)
  case Nil
  show ?case by simp
next
  case (Cons e sm)
  obtain s m where e: "e = (s, m)" by (cases e)
  show ?case
    unfolding e alerts_loop.simps Let_def
    by (subst Cons.IH, subst (2) Cons.IH) simp
qed

lemma evaluate_alerts_Nil: "evaluate_alerts [] = []"
  by (simp add: evaluate_alerts_def)

lemma evaluate_alerts_single:
  "evaluate_alerts [(s, m)] =
     (if m_Fill_Rate m < 80 then [(''danger'', danger_msg s (m_Fill_Rate m))] else []) @
     (if m_eCPM m < 1 then [(''warning'', warning_msg s (m_eCPM m))] else [])"
  by (simp add: evaluate_alerts_def)

lemma evaluate_alerts_Cons:
  "evaluate_alerts (e # sm) = evaluate_alerts [e] @ evaluate_alerts sm"
proof -
  obtain s m where e: "e = (s, m)" by (cases e)
  show ?thesis
    unfolding e evaluate_alerts_def alerts_loop.simps Let_def
    by (subst alerts_loop_acc) simp
qed

lemma evaluate_alerts_concat:
  "evaluate_alerts sm = concat (map (\<lambda>e. evaluate_alerts [e]) sm)"
proof (induction sm)
  case Nil
  show ?case by (simp add: evaluate_alerts_Nil)
next
  case (Cons e sm)
  have "evaluate_alerts (e # sm) = evaluate_alerts [e] @ evaluate_alerts sm"
    by (rule evaluate_alerts_Cons)
  with Cons.IH show ?case by simp
qed

lemma evaluate_alerts_append:
  "evaluate_alerts (sm @ sm') = evaluate_alerts sm @ evaluate_alerts sm'"
  by (subst (1 2 3) evaluate_alerts_concat) simp

lemma sublist_danger_msg: "sublist s (danger_msg s v)"
  unfolding danger_msg_def sublist_def by (metis append.assoc)

lemma sublist_warning_msg: "sublist s (warning_msg s v)"
  unfolding warning_msg_def sublist_def by (metis append.assoc)



text \<open>
  Claim C1. For every per-source metrics mapping, the danger alerts of the evaluator are, in
  order, one for each source whose \<open>Fill_Rate\<close> mean is strictly below 80 and none for any
  other source, and the warning alerts are one for each source whose \<open>eCPM\<close> mean is strictly
  below 1 and none for any other. A mean of 79.9 gives exactly the one danger alert, 80.0
  gives none; 0.99 gives exactly the one warning, 1.0 gives none. Each message contains the
  name of its source.
\<close>

theorem alerts_threshold_iff:
  "[a \<leftarrow> evaluate_alerts sm. fst a = ''danger''] =
      map (\<lambda>(s, m). (''danger'', danger_msg s (m_Fill_Rate m)))
        [e \<leftarrow> sm. m_Fill_Rate (snd e) < 80]
   \<and> [a \<leftarrow> evaluate_alerts sm. fst a = ''warning''] =
      map (\<lambda>(s, m). (''warning'', warning_msg s (m_eCPM m)))
        [e \<leftarrow> sm. m_eCPM (snd e) < 1]
   \<and> evaluate_alerts [(s, \<lparr>m_Fill_Rate = 799 / 10, m_Revenue = r, m_eCPM = 1\<rparr>)] =
        [(''danger'', danger_msg s (799 / 10))]
   \<and> evaluate_alerts [(s, \<lparr>m_Fill_Rate = 80, m_Revenue = r, m_eCPM = 1\<rparr>)] = []
   \<and> evaluate_alerts [(s, \<lparr>m_Fill_Rate = 80, m_Revenue = r, m_eCPM = 99 / 100\<rparr>)] =
        [(''warning'', warning_msg s (99 / 100))]
   \<and> sublist s (danger_msg s v) \<and> sublist s (warning_msg s v)"
proof -
  have d: "[a \<leftarrow> evaluate_alerts sm. fst a = ''danger''] =
      map (\<lambda>(s, m). (''danger'', danger_msg s (m_Fill_Rate m)))
        [e \<leftarrow> sm. m_Fill_Rate (snd e) < 80]"
  proof (induction sm)
    case Nil
    show ?case by (simp add: evaluate_alerts_Nil)
  next
    case (Cons e sm)
    obtain s m where e: "e = (s, m)" by (cases e)
    show ?case
      unfolding e
      by (subst evaluate_alerts_Cons) (simp add: evaluate_alerts_single Cons.IH)
  qed
  have w: "[a \<leftarrow> evaluate_alerts sm. fst a = ''warning''] =
      map (\<lambda>(s, m). (''warning'', warning_msg s (m_eCPM m)))
        [e \<leftarrow> sm. m_eCPM (snd e) < 1]"
  proof (induction sm)
    case Nil
    show ?case by (simp add: evaluate_alerts_Nil)
  next
    case (Cons e sm)
    obtain s m where e: "e = (s, m)" by (cases e)
    show ?case
      unfolding e
      by (subst evaluate_alerts_Cons) (simp add: evaluate_alerts_single Cons.IH)
  qed
  have b1: "evaluate_alerts [(s, \<lparr>m_Fill_Rate = 799 / 10, m_Revenue = r, m_eCPM = 1\<rparr>)] =
        [(''danger'', danger_msg s (799 / 10))]"
    by (simp add: evaluate_alerts_single)
  have b2: "evaluate_alerts [(s, \<lparr>m_Fill_Rate = 80, m_Revenue = r, m_eCPM = 1\<rparr>)] = []"
    by (simp add: evaluate_alerts_single)
  have b3: "evaluate_alerts [(s, \<lparr>m_Fill_Rate = 80, m_Revenue = r, m_eCPM = 99 / 100\<rparr>)] =
        [(''warning'', warning_msg s (99 / 100))]"
    by (simp add: evaluate_alerts_single)
  from d w b1 b2 b3 sublist_danger_msg sublist_warning_msg show ?thesis by blast
qed

text \<open>
  Claim C9. The evaluator is a function of the metrics mapping. Its output is the
  concatenation, in the order of the mapping, of what each source contributes: the danger
  alert first, then the warning, each present when its own threshold test holds. So the
  alerts of a mapping split in two are those of the first part followed by those of the
  second, a source can contribute both alerts, nothing is dropped (the number of alerts
  is the number of passed danger tests plus the number of passed warning tests), and the
  mapping computed from a frame lists its sources in ascending order.
\<close>

theorem alerts_order_interleaved:
  "evaluate_alerts sm =
     concat (map (\<lambda>(s, m).
        (if m_Fill_Rate m < 80 then [(''danger'', danger_msg s (m_Fill_Rate m))] else []) @
        (if m_eCPM m < 1 then [(''warning'', warning_msg s (m_eCPM m))] else [])) sm)
   \<and> evaluate_alerts (sm @ sm') = evaluate_alerts sm @ evaluate_alerts sm'
   \<and> length (evaluate_alerts sm) =
       length [e \<leftarrow> sm. m_Fill_Rate (snd e) < 80] + length [e \<leftarrow> sm. m_eCPM (snd e) < 1]
   \<and> evaluate_alerts [(s, \<lparr>m_Fill_Rate = 70, m_Revenue = r, m_eCPM = 1 / 2\<rparr>)] =
       [(''danger'', danger_msg s 70), (''warning'', warning_msg s (1 / 2))]
   \<and> map fst (source_metrics df) = sort (remdups (map Fuente df))"
proof -
  have c: "evaluate_alerts sm =
     concat (map (\<lambda>(s, m).
        (if m_Fill_Rate m < 80 then [(''danger'', danger_msg s (m_Fill_Rate m))] else []) @
        (if m_eCPM m < 1 then [(''warning'', warning_msg s (m_eCPM m))] else [])) sm)"
  proof (induction sm)
    case Nil
    show ?case by (simp add: evaluate_alerts_Nil)
  next
    case (Cons e sm)
    obtain s m where e: "e = (s, m)" by (cases e)
    show ?case
      unfolding e
      by (subst evaluate_alerts_Cons) (simp add: evaluate_alerts_single Cons.IH)
  qed
  have l: "length (evaluate_alerts sm) =
       length [e \<leftarrow> sm. m_Fill_Rate (snd e) < 80] + length [e \<leftarrow> sm. m_eCPM (snd e) < 1]"
  proof (induction sm)
    case Nil
    show ?case by (simp add: evaluate_alerts_Nil)
  next
    case (Cons e sm)
    obtain s m where e: "e = (s, m)" by (cases e)
    show ?case
      unfolding e
      by (subst evaluate_alerts_Cons) (simp add: evaluate_alerts_single Cons.IH)
  qed
  have b: "evaluate_alerts [(s, \<lparr>m_Fill_Rate = 70, m_Revenue = r, m_eCPM = 1 / 2\<rparr>)] =
       [(''danger'', danger_msg s 70), (''warning'', warning_msg s (1 / 2))]"
    by (simp add: evaluate_alerts_single)
  have o: "map fst (source_metrics df) = sort (remdups (map Fuente df))"
    by (simp add: source_metrics_def groupby_Fuente_def comp_def)
  from c l b o evaluate_alerts_append show ?thesis by blast
qed


section \<open>Properties of the validator\<close>

lemma getitem_setitem:
  "getitem (setitem df k v) k' = (if k' = k then Inr v else getitem df k')"
  by (induction df k v rule: setitem.induct) (auto simp: getitem_def)

lemma columns_setitem:
  "k \<in> set (columns df) \<Longrightarrow> columns (setitem df k v) = columns df"
  by (induction df k v rule: setitem.induct) (auto simp: columns_def)

lemma getitem_present:
  "k \<in> set (columns df) \<Longrightarrow> \<exists>c. getitem df k = Inr c"
  unfolding getitem_def columns_def
  by (cases "map_of df k") (auto simp: map_of_eq_None_iff)

lemma numeric_loop_setitem:
  "k \<notin> set cols \<Longrightarrow> numeric_loop (setitem df k v) cols = numeric_loop df cols"
  by (induction cols) (auto simp: getitem_setitem split: sum.splits)

lemma sublist_join: "x \<in> set xs \<Longrightarrow> sublist x (join sep xs)"
proof (induction sep xs rule: join.induct)
  case (1 sep)
  then show ?case by simp
next
  case (2 sep x')
  then show ?case by simp
next
  case (3 sep x' y ys)
  show ?case
  proof (cases "x = x'")
    case True
    then show ?thesis by (simp add: sublist_def) (metis append_Nil)
  next
    case False
    with 3 have "sublist x (join sep (y # ys))" by simp
    then obtain ps ss where "join sep (y # ys) = ps @ x @ ss"
      unfolding sublist_def by blast
    then have "join sep (x' # y # ys) = (x' @ sep @ ps) @ x @ ss" by simp
    then show ?thesis unfolding sublist_def by blast
  qed
qed

lemma missing_iff:
  "[col \<leftarrow> required_columns. col \<notin> set (columns df)] = [] \<longleftrightarrow>
     set required_columns \<subseteq> set (columns df)"
  by (auto simp: filter_empty_conv)

lemma numeric_subset_required: "set numeric_columns \<subseteq> set required_columns"
  by (simp add: numeric_columns_def required_columns_def)

lemma Fecha_not_numeric: "''Fecha'' \<notin> set numeric_columns"
  by (simp add: numeric_columns_def)

lemma Fecha_required: "''Fecha'' \<in> set required_columns"
  by (simp add: required_columns_def)

lemma validate_data_present:
  assumes "set required_columns \<subseteq> set (columns df)"
    and "getitem df ''Fecha'' = Inr c"
  shows "validate_data to_datetime df =
     (case to_datetime c of
        None \<Rightarrow> (Inr (False, ''Error en formato de fechas. Use YYYY-MM-DD''), df)
      | Some parsed \<Rightarrow> (numeric_loop df numeric_columns, setitem df ''Fecha'' parsed))"
  using assms
  by (simp add: validate_data_def missing_iff Let_def numeric_loop_setitem Fecha_not_numeric
      split: option.splits)

lemma validate_data_missing:
  assumes "\<not> set required_columns \<subseteq> set (columns df)"
  shows "validate_data to_datetime df =
     (Inr (False, ''Faltan las siguientes columnas: '' @
         join '', '' [col \<leftarrow> required_columns. col \<notin> set (columns df)]), df)"
  using assms by (simp add: validate_data_def missing_iff Let_def)

lemma numeric_loop_all_numeric:
  "list_all (\<lambda>col. case getitem df col of Inl e \<Rightarrow> False | Inr x \<Rightarrow> is_numeric_dtype x) cols \<Longrightarrow>
   numeric_loop df cols = Inr (True, ''Datos v'' @ [CHR 0xC3, CHR 0xA1] @ ''lidos'')"
  by (induction cols) (auto split: sum.splits)

lemma numeric_loop_first:
  "set cols \<subseteq> set (columns df) \<Longrightarrow>
   find (\<lambda>col. case getitem df col of Inl e \<Rightarrow> False | Inr x \<Rightarrow> \<not> is_numeric_dtype x) cols = Some col \<Longrightarrow>
   numeric_loop df cols =
     Inr (False, ''La columna '' @ col @ '' debe ser num'' @ [CHR 0xC3, CHR 0xA9] @ ''rica'')"
proof (induction cols)
  case Nil
  then show ?case by simp
next
  case (Cons a cols)
  from Cons.prems(1) obtain c where c: "getitem df a = Inr c"
    using getitem_present[of a df] by auto
  from Cons.prems(1) have sub: "set cols \<subseteq> set (columns df)" by simp
  show ?case
  proof (cases "is_numeric_dtype c")
    case True
    with Cons.prems(2) c have "find (\<lambda>col. case getitem df col of Inl e \<Rightarrow> False | Inr x \<Rightarrow> \<not> is_numeric_dtype x) cols = Some col"
      by simp
    with Cons.IH sub c True show ?thesis by simp
  next
    case False
    with Cons.prems(2) c have "a = col" by simp
    with c False show ?thesis by simp
  qed
qed

text \<open>
  Claim C5. When one or more of the eight required columns are missing from the frame,
  \<open>validate_data\<close> fails, and its message is the fixed prefix followed by all the missing
  columns, joined by a comma and a space, in the order of the list of required columns
  (Fecha, Fuente, Revenue, Impresiones, Page_RPM, Fill_Rate, eCPM, CTR): every missing
  column is in the message, not the first one only.
\<close>

theorem validate_data_lists_missing:
  assumes "\<not> set required_columns \<subseteq> set (columns df)"
  shows "validate_data to_datetime df =
           (Inr (False, ''Faltan las siguientes columnas: '' @
              join '', '' [col \<leftarrow> required_columns. col \<notin> set (columns df)]), df)
         \<and> subseq [col \<leftarrow> required_columns. col \<notin> set (columns df)] required_columns
         \<and> (\<forall>c. c \<in> set required_columns \<and> c \<notin> set (columns df) \<longrightarrow>
               sublist c (join '', '' [col \<leftarrow> required_columns. col \<notin> set (columns df)]))"
proof (intro conjI allI impI)
  show "validate_data to_datetime df =
           (Inr (False, ''Faltan las siguientes columnas: '' @
              join '', '' [col \<leftarrow> required_columns. col \<notin> set (columns df)]), df)"
    using assms by (rule validate_data_missing)
  show "subseq [col \<leftarrow> required_columns. col \<notin> set (columns df)] required_columns"
    by simp
  fix c
  assume "c \<in> set required_columns \<and> c \<notin> set (columns df)"
  then have "c \<in> set [col \<leftarrow> required_columns. col \<notin> set (columns df)]" by simp
  then show "sublist c (join '', '' [col \<leftarrow> required_columns. col \<notin> set (columns df)])"
    by (rule sublist_join)
qed

theorem validate_data_lists_missing_witness:
  "\<not> set required_columns \<subseteq>
       set (columns [(''Fecha'', ObjectCol [''2024-01-01'']), (''Revenue'', FloatCol [1]),
                     (''CTR'', FloatCol [2])])
   \<and> fst (validate_data iso_to_datetime
         [(''Fecha'', ObjectCol [''2024-01-01'']), (''Revenue'', FloatCol [1]),
          (''CTR'', FloatCol [2])]) =
       Inr (False,
         ''Faltan las siguientes columnas: Fuente, Impresiones, Page_RPM, Fill_Rate, eCPM'')"
proof -
  let ?T = "[(''Fecha'', ObjectCol [''2024-01-01'']), (''Revenue'', FloatCol [1]),
             (''CTR'', FloatCol [2])]"
  have h: "\<not> set required_columns \<subseteq> set (columns ?T)"
    by (simp add: required_columns_def columns_def)
  have m: "[col \<leftarrow> required_columns. col \<notin> set (columns ?T)] =
      [''Fuente'', ''Impresiones'', ''Page_RPM'', ''Fill_Rate'', ''eCPM'']"
    by (simp add: required_columns_def columns_def)
  from validate_data_lists_missing[OF h, of iso_to_datetime]
  have "fst (validate_data iso_to_datetime ?T) =
      Inr (False, ''Faltan las siguientes columnas: '' @
        join '', '' [col \<leftarrow> required_columns. col \<notin> set (columns ?T)])"
    by simp
  then have "fst (validate_data iso_to_datetime ?T) =
      Inr (False,
         ''Faltan las siguientes columnas: Fuente, Impresiones, Page_RPM, Fill_Rate, eCPM'')"
    unfolding m by simp
  with h show ?thesis by blast
qed

text \<open>
  Claim C6. When the eight columns are present and the date column converts, and some
  numeric column is not numeric-typed, \<open>validate_data\<close> fails with the message that names
  the first such column in the order Revenue, Impresiones, Page_RPM, Fill_Rate, eCPM, CTR,
  and no other column. In the example both Impresiones and eCPM are text and only
  Impresiones is named.
\<close>

theorem validate_data_first_non_numeric:
  assumes "set required_columns \<subseteq> set (columns df)"
    and "getitem df ''Fecha'' = Inr c"
    and "to_datetime c = Some parsed"
    and "find (\<lambda>col. case getitem df col of Inl e \<Rightarrow> False | Inr x \<Rightarrow> \<not> is_numeric_dtype x)
           numeric_columns = Some col"
  shows "fst (validate_data to_datetime df) =
     Inr (False, ''La columna '' @ col @ '' debe ser num'' @ [CHR 0xC3, CHR 0xA9] @ ''rica'')"
proof -
  from assms(1) numeric_subset_required
  have sub: "set numeric_columns \<subseteq> set (columns df)" by blast
  from validate_data_present[OF assms(1,2), of to_datetime] assms(3)
  have "fst (validate_data to_datetime df) = numeric_loop df numeric_columns" by simp
  with numeric_loop_first[OF sub assms(4)] show ?thesis by simp
qed

theorem validate_data_first_non_numeric_witness:
  "set required_columns \<subseteq> set (columns untyped_upload)
   \<and> getitem untyped_upload ''eCPM'' = Inr (ObjectCol [''n/a'', ''2''])
   \<and> fst (validate_data iso_to_datetime untyped_upload) =
       Inr (False, ''La columna Impresiones debe ser num'' @ [CHR 0xC3, CHR 0xA9] @ ''rica'')"
proof -
  have h1: "set required_columns \<subseteq> set (columns untyped_upload)"
    by (simp add: required_columns_def columns_def untyped_upload_def)
  have h2: "getitem untyped_upload ''Fecha'' = Inr (ObjectCol [''2024-01-01'', ''2024-02-29''])"
    by (simp add: getitem_def untyped_upload_def)
  have h3: "iso_to_datetime (ObjectCol [''2024-01-01'', ''2024-02-29'']) =
      Some (DatetimeCol [((2024, 1, 1), 0), ((2024, 2, 29), 0)])"
    by code_simp
  have h4: "find (\<lambda>col. case getitem untyped_upload col of Inl e \<Rightarrow> False
                        | Inr x \<Rightarrow> \<not> is_numeric_dtype x) numeric_columns = Some ''Impresiones''"
    by (simp add: numeric_columns_def getitem_def untyped_upload_def)
  have e: "getitem untyped_upload ''eCPM'' = Inr (ObjectCol [''n/a'', ''2''])"
    by (simp add: getitem_def untyped_upload_def)
  from validate_data_first_non_numeric[where to_datetime = iso_to_datetime, OF h1 h2 h3 h4] h1 e
  show ?thesis by simp
qed

text \<open>
  Claim C7, as stated, fails: a frame whose impressions are 0 and -5 is accepted.
\<close>

theorem validate_data_accepts_zero_impressions:
  "getitem example_upload ''Impresiones'' = Inr (IntCol [0, - 5])
   \<and> fst (validate_data iso_to_datetime example_upload) =
       Inr (True, ''Datos v'' @ [CHR 0xC3, CHR 0xA1] @ ''lidos'')"
  unfolding example_upload_def by code_simp

text \<open>
  Claim C7, amended. \<open>validate_data\<close> does not look at the values of the impressions: a
  frame with the eight columns, a date column that converts and numeric-typed numeric
  columns is accepted, and stays accepted when its impressions are replaced by any integers
  or any decimals, zero and negative ones included.
\<close>

theorem validate_data_ignores_values:
  assumes "set required_columns \<subseteq> set (columns df)"
    and "getitem df ''Fecha'' = Inr c"
    and "to_datetime c = Some parsed"
    and "list_all (\<lambda>col. case getitem df col of Inl e \<Rightarrow> False | Inr x \<Rightarrow> is_numeric_dtype x)
           numeric_columns"
  shows "fst (validate_data to_datetime df) =
           Inr (True, ''Datos v'' @ [CHR 0xC3, CHR 0xA1] @ ''lidos'')
         \<and> fst (validate_data to_datetime (setitem df ''Impresiones'' (IntCol vs))) =
           Inr (True, ''Datos v'' @ [CHR 0xC3, CHR 0xA1] @ ''lidos'')
         \<and> fst (validate_data to_datetime (setitem df ''Impresiones'' (FloatCol ws))) =
           Inr (True, ''Datos v'' @ [CHR 0xC3, CHR 0xA1] @ ''lidos'')"
proof -
  have imp: "''Impresiones'' \<in> set (columns df)"
    using assms(1) by (auto simp: required_columns_def)
  have accept: "fst (validate_data to_datetime (setitem df ''Impresiones'' v)) =
           Inr (True, ''Datos v'' @ [CHR 0xC3, CHR 0xA1] @ ''lidos'')"
    if v: "is_numeric_dtype v" for v
  proof -
    let ?df = "setitem df ''Impresiones'' v"
    have p: "set required_columns \<subseteq> set (columns ?df)"
      using assms(1) imp by (simp add: columns_setitem)
    have f: "getitem ?df ''Fecha'' = Inr c"
      using assms(2) by (simp add: getitem_setitem)
    have n: "list_all (\<lambda>col. case getitem ?df col of Inl e \<Rightarrow> False | Inr x \<Rightarrow> is_numeric_dtype x)
           numeric_columns"
      using assms(4) v by (simp add: getitem_setitem numeric_columns_def)
    from validate_data_present[OF p f, of to_datetime] assms(3)
    have "fst (validate_data to_datetime ?df) = numeric_loop ?df numeric_columns" by simp
    with numeric_loop_all_numeric[OF n] show ?thesis by simp
  qed
  from validate_data_present[OF assms(1,2), of to_datetime] assms(3)
  have "fst (validate_data to_datetime df) = numeric_loop df numeric_columns" by simp
  with numeric_loop_all_numeric[OF assms(4)]
  have "fst (validate_data to_datetime df) =
           Inr (True, ''Datos v'' @ [CHR 0xC3, CHR 0xA1] @ ''lidos'')" by simp
  moreover have "is_numeric_dtype (IntCol vs)" "is_numeric_dtype (FloatCol ws)" by simp_all
  ultimately show ?thesis using accept by blast
qed

theorem validate_data_ignores_values_witness:
  "set required_columns \<subseteq> set (columns example_upload)
   \<and> fst (validate_data iso_to_datetime example_upload) =
       Inr (True, ''Datos v'' @ [CHR 0xC3, CHR 0xA1] @ ''lidos'')
   \<and> fst (validate_data iso_to_datetime
         (setitem example_upload ''Impresiones'' (IntCol [- 1000, 0]))) =
       Inr (True, ''Datos v'' @ [CHR 0xC3, CHR 0xA1] @ ''lidos'')"
proof -
  have h1: "set required_columns \<subseteq> set (columns example_upload)"
    by (simp add: required_columns_def columns_def example_upload_def)
  have h2: "getitem example_upload ''Fecha'' = Inr (ObjectCol [''2024-01-01'', ''2024-02-29''])"
    by (simp add: getitem_def example_upload_def)
  have h3: "iso_to_datetime (ObjectCol [''2024-01-01'', ''2024-02-29'']) =
      Some (DatetimeCol [((2024, 1, 1), 0), ((2024, 2, 29), 0)])"
    by code_simp
  have h4: "list_all (\<lambda>col. case getitem example_upload col of Inl e \<Rightarrow> False
                           | Inr x \<Rightarrow> is_numeric_dtype x) numeric_columns"
    by (simp add: numeric_columns_def getitem_def example_upload_def)
  from validate_data_ignores_values[where to_datetime = iso_to_datetime
      and vs = "[- 1000, 0]", OF h1 h2 h3 h4] h1
  show ?thesis by blast
qed

text \<open>
  Claim C2, as stated, fails: after a successful conversion the caller's frame holds the
  converted date column in place of the text it held before the call.
\<close>

theorem validate_data_replaces_Fecha:
  "snd (validate_data iso_to_datetime example_upload) \<noteq> example_upload
   \<and> getitem (snd (validate_data iso_to_datetime example_upload)) ''Fecha'' =
       Inr (DatetimeCol [((2024, 1, 1), 0), ((2024, 2, 29), 0)])
   \<and> getitem example_upload ''Fecha'' = Inr (ObjectCol [''2024-01-01'', ''2024-02-29''])"
  unfolding example_upload_def by code_simp

text \<open>
  Claim C2, amended. \<open>validate_data\<close> keeps the column names and their order, and every
  column other than Fecha. When a required column is missing, or the dates do not convert,
  the frame is left as it was. When the eight columns are present and the dates convert,
  the Fecha column is replaced by the converted one (whatever the type check says
  afterwards) and nothing else changes.
\<close>

theorem validate_data_frame_effect:
  "columns (snd (validate_data to_datetime df)) = columns df
   \<and> (col \<noteq> ''Fecha'' \<longrightarrow> getitem (snd (validate_data to_datetime df)) col = getitem df col)
   \<and> (\<not> set required_columns \<subseteq> set (columns df) \<longrightarrow> snd (validate_data to_datetime df) = df)
   \<and> (getitem df ''Fecha'' = Inr c \<and> to_datetime c = None \<longrightarrow>
        snd (validate_data to_datetime df) = df)
   \<and> (set required_columns \<subseteq> set (columns df) \<and> getitem df ''Fecha'' = Inr c \<and>
        to_datetime c = Some parsed \<longrightarrow>
        snd (validate_data to_datetime df) = setitem df ''Fecha'' parsed \<and>
        getitem (snd (validate_data to_datetime df)) ''Fecha'' = Inr parsed)"
proof -
  have shape: "snd (validate_data to_datetime df) = df \<or>
      (''Fecha'' \<in> set (columns df) \<and>
       (\<exists>p. snd (validate_data to_datetime df) = setitem df ''Fecha'' p))"
  proof (cases "set required_columns \<subseteq> set (columns df)")
    case False
    then show ?thesis by (simp add: validate_data_missing)
  next
    case True
    then have F: "''Fecha'' \<in> set (columns df)" using Fecha_required by blast
    then obtain c' where c': "getitem df ''Fecha'' = Inr c'"
      using getitem_present by blast
    show ?thesis
      using validate_data_present[OF True c', of to_datetime] F
      by (cases "to_datetime c'") auto
  qed
  have a: "columns (snd (validate_data to_datetime df)) = columns df"
    using shape by (auto simp: columns_setitem)
  have b: "col \<noteq> ''Fecha'' \<longrightarrow> getitem (snd (validate_data to_datetime df)) col = getitem df col"
    using shape by (auto simp: getitem_setitem)
  have c1: "\<not> set required_columns \<subseteq> set (columns df) \<longrightarrow> snd (validate_data to_datetime df) = df"
    by (simp add: validate_data_missing)
  have d: "getitem df ''Fecha'' = Inr c \<and> to_datetime c = None \<longrightarrow>
        snd (validate_data to_datetime df) = df"
  proof (cases "set required_columns \<subseteq> set (columns df)")
    case False
    then show ?thesis by (simp add: validate_data_missing)
  next
    case True
    show ?thesis
    proof
      assume h: "getitem df ''Fecha'' = Inr c \<and> to_datetime c = None"
      with validate_data_present[OF True, of c to_datetime]
      show "snd (validate_data to_datetime df) = df" by simp
    qed
  qed
  have e: "set required_columns \<subseteq> set (columns df) \<and> getitem df ''Fecha'' = Inr c \<and>
        to_datetime c = Some parsed \<longrightarrow>
        snd (validate_data to_datetime df) = setitem df ''Fecha'' parsed \<and>
        getitem (snd (validate_data to_datetime df)) ''Fecha'' = Inr parsed"
  proof
    assume h: "set required_columns \<subseteq> set (columns df) \<and> getitem df ''Fecha'' = Inr c \<and>
        to_datetime c = Some parsed"
    then have "snd (validate_data to_datetime df) = setitem df ''Fecha'' parsed"
      using validate_data_present[of df c to_datetime] by simp
    then show "snd (validate_data to_datetime df) = setitem df ''Fecha'' parsed \<and>
        getitem (snd (validate_data to_datetime df)) ''Fecha'' = Inr parsed"
      by (simp add: getitem_setitem)
  qed
  from a b c1 d e show ?thesis by blast
qed

theorem validate_data_frame_effect_witness:
  "columns (snd (validate_data iso_to_datetime example_upload)) = columns example_upload
   \<and> getitem (snd (validate_data iso_to_datetime example_upload)) ''Impresiones'' =
       getitem example_upload ''Impresiones''
   \<and> snd (validate_data iso_to_datetime (tl example_upload)) = tl example_upload
   \<and> snd (validate_data iso_to_datetime
         (setitem example_upload ''Fecha'' (ObjectCol [''01/02/2024'', ''2024-02-29'']))) =
       setitem example_upload ''Fecha'' (ObjectCol [''01/02/2024'', ''2024-02-29''])
   \<and> snd (validate_data iso_to_datetime example_upload) =
       setitem example_upload ''Fecha'' (DatetimeCol [((2024, 1, 1), 0), ((2024, 2, 29), 0)])"
proof -
  have h1: "set required_columns \<subseteq> set (columns example_upload)"
    by (simp add: required_columns_def columns_def example_upload_def)
  have h2: "getitem example_upload ''Fecha'' = Inr (ObjectCol [''2024-01-01'', ''2024-02-29''])"
    by (simp add: getitem_def example_upload_def)
  have h3: "iso_to_datetime (ObjectCol [''2024-01-01'', ''2024-02-29'']) =
      Some (DatetimeCol [((2024, 1, 1), 0), ((2024, 2, 29), 0)])"
    by code_simp
  have h4: "\<not> set required_columns \<subseteq> set (columns (tl example_upload))"
    by (simp add: required_columns_def columns_def example_upload_def)
  have h5: "getitem (setitem example_upload ''Fecha'' (ObjectCol [''01/02/2024'', ''2024-02-29'']))
      ''Fecha'' = Inr (ObjectCol [''01/02/2024'', ''2024-02-29''])"
    by (simp add: getitem_setitem)
  have h6: "iso_to_datetime (ObjectCol [''01/02/2024'', ''2024-02-29'']) = None"
    by code_simp
  have h7: "''Impresiones'' \<noteq> ''Fecha''" by simp
  note t1 = validate_data_frame_effect[where to_datetime = iso_to_datetime
      and df = example_upload and col = "''Impresiones''"
      and c = "ObjectCol [''2024-01-01'', ''2024-02-29'']"
      and parsed = "DatetimeCol [((2024, 1, 1), 0), ((2024, 2, 29), 0)]"]
  note t2 = validate_data_frame_effect[where to_datetime = iso_to_datetime
      and df = "tl example_upload"]
  note t3 = validate_data_frame_effect[where to_datetime = iso_to_datetime
      and df = "setitem example_upload ''Fecha'' (ObjectCol [''01/02/2024'', ''2024-02-29''])"
      and c = "ObjectCol [''01/02/2024'', ''2024-02-29'']"]
  from t1 h1 h2 h3 h7 t2 h4 t3 h5 h6 show ?thesis by blast
qed

section \<open>Properties of the filters\<close>

lemma select_rows_map: "select_rows df (map P df) = filter P df"
  unfolding select_rows_def by (induction df) auto

lemma series_and_map:
  "series_and (map P df) (map Q df) = map (\<lambda>r. P r \<and> Q r) df"
  unfolding series_and_def by (induction df) auto

lemma isin_map: "isin (map f df) S = map (\<lambda>r. f r \<in> set S) df"
  unfolding isin_def by simp

lemma filtered_df_two_bounds:
  "filtered_df df [d1, d2] S =
     filter (\<lambda>r. d1 \<le> dt_date (Fecha r) \<and> dt_date (Fecha r) \<le> d2 \<and> Fuente r \<in> set S) df"
  by (simp add: filtered_df_def isin_map series_and_map select_rows_map conj_assoc)

lemma fold_min_le: "x \<in> set (t # ts) \<Longrightarrow> fold min ts t \<le> (x :: timestamp)"
proof -
  assume "x \<in> set (t # ts)"
  then have "Min (set (t # ts)) \<le> x" by (intro Min_le) auto
  then show ?thesis by (simp only: Min.set_eq_fold)
qed

lemma fold_max_ge: "x \<in> set (t # ts) \<Longrightarrow> (x :: timestamp) \<le> fold max ts t"
proof -
  assume "x \<in> set (t # ts)"
  then have "x \<le> Max (set (t # ts))" by (intro Max_ge) auto
  then show ?thesis by (simp only: Max.set_eq_fold)
qed

lemma fst_mono_lex: "(t :: 'a::order \<times> 'b::order) \<le> u \<Longrightarrow> fst t \<le> fst u"
  by (auto simp: less_eq_prod_def)

lemma dt_date_mono: "t \<le> u \<Longrightarrow> dt_date t \<le> dt_date u"
  unfolding dt_date_def by (rule fst_mono_lex)

lemma filtered_df_defaults:
  assumes "default_date_range df = Some dr"
  shows "filtered_df df dr (all_sources df) = df"
proof -
  from assms obtain t ts where ts: "map Fecha df = t # ts"
    and dr: "dr = [dt_date (fold min ts t), dt_date (fold max ts t)]"
    by (auto simp: default_date_range_def split: list.splits)
  have "\<forall>r \<in> set df. dt_date (fold min ts t) \<le> dt_date (Fecha r) \<and>
      dt_date (Fecha r) \<le> dt_date (fold max ts t) \<and> Fuente r \<in> set (all_sources df)"
  proof
    fix r
    assume r: "r \<in> set df"
    then have "Fecha r \<in> set (t # ts)" using ts by (metis image_eqI set_map)
    then have "fold min ts t \<le> Fecha r" and "Fecha r \<le> fold max ts t"
      by (simp_all only: fold_min_le fold_max_ge)
    then have "dt_date (fold min ts t) \<le> dt_date (Fecha r)"
      and "dt_date (Fecha r) \<le> dt_date (fold max ts t)"
      by (simp_all only: dt_date_mono)
    moreover have "Fuente r \<in> set (all_sources df)"
      using r by (simp add: all_sources_def)
    ultimately show "dt_date (fold min ts t) \<le> dt_date (Fecha r) \<and>
      dt_date (Fecha r) \<le> dt_date (fold max ts t) \<and> Fuente r \<in> set (all_sources df)"
      by simp
  qed
  then show ?thesis
    unfolding dr filtered_df_two_bounds by (simp add: filter_id_conv)
qed

text \<open>
  Claim C4. With the two bounds \<open>d1\<close> and \<open>d2\<close>, \<open>filtered_df\<close> keeps exactly the rows whose
  date is from \<open>d1\<close> to \<open>d2\<close> inclusive and whose source is among the selected ones, in the
  order of the frame. With no source selected nothing is kept. With the dates and the
  sources the widgets start with (the earliest and latest date of the frame, all its
  sources) the frame comes back whole, so in particular with the same rows as a multiset.
\<close>

theorem filtered_df_exact:
  "filtered_df df [d1, d2] S =
     filter (\<lambda>r. d1 \<le> dt_date (Fecha r) \<and> dt_date (Fecha r) \<le> d2 \<and> Fuente r \<in> set S) df
   \<and> subseq (filtered_df df [d1, d2] S) df
   \<and> filtered_df df [d1, d2] [] = []
   \<and> (default_date_range df = Some dr \<longrightarrow>
        filtered_df df dr (all_sources df) = df \<and>
        mset (filtered_df df dr (all_sources df)) = mset df)"
proof -
  have a: "filtered_df df [d1, d2] S =
     filter (\<lambda>r. d1 \<le> dt_date (Fecha r) \<and> dt_date (Fecha r) \<le> d2 \<and> Fuente r \<in> set S) df"
    by (rule filtered_df_two_bounds)
  have b: "subseq (filtered_df df [d1, d2] S) df"
    unfolding filtered_df_two_bounds by simp
  have c: "filtered_df df [d1, d2] [] = []"
    unfolding filtered_df_two_bounds by simp
  have d: "default_date_range df = Some dr \<longrightarrow>
        filtered_df df dr (all_sources df) = df \<and>
        mset (filtered_df df dr (all_sources df)) = mset df"
    by (simp add: filtered_df_defaults)
  from a b c d show ?thesis by blast
qed

theorem filtered_df_exact_witness:
  "default_date_range scenario = Some [(2024, 1, 1), (2024, 1, 2)]
   \<and> filtered_df scenario [(2024, 1, 1), (2024, 1, 2)] (all_sources scenario) = scenario
   \<and> filtered_df scenario [(2024, 1, 2), (2024, 1, 2)] [''SourceB''] = [scenario ! 3]"
proof -
  have h: "default_date_range scenario = Some [(2024, 1, 1), (2024, 1, 2)]"
    unfolding scenario_def by code_simp
  have e: "filter (\<lambda>r. (2024, 1, 2) \<le> dt_date (Fecha r) \<and> dt_date (Fecha r) \<le> (2024, 1, 2) \<and>
      Fuente r \<in> set [''SourceB'']) scenario = [scenario ! 3]"
    unfolding scenario_def by code_simp
  note t1 = filtered_df_exact[where df = scenario and dr = "[(2024, 1, 1), (2024, 1, 2)]"]
  note t2 = filtered_df_exact[where df = scenario and ?d1.0 = "(2024, 1, 2)"
      and ?d2.0 = "(2024, 1, 2)" and S = "[''SourceB'']"]
  from t1 h
  have w1: "filtered_df scenario [(2024, 1, 1), (2024, 1, 2)] (all_sources scenario) = scenario"
    by blast
  from t2 have "filtered_df scenario [(2024, 1, 2), (2024, 1, 2)] [''SourceB''] =
      filter (\<lambda>r. (2024, 1, 2) \<le> dt_date (Fecha r) \<and> dt_date (Fecha r) \<le> (2024, 1, 2) \<and>
        Fuente r \<in> set [''SourceB'']) scenario"
    by blast
  with e have w2: "filtered_df scenario [(2024, 1, 2), (2024, 1, 2)] [''SourceB''] = [scenario ! 3]"
    by (simp only:)
  from h w1 w2 show ?thesis by blast
qed

section \<open>Properties of the main metrics\<close>




section \<open>Properties of the sums by source\<close>

















end
